theory Spec2Isabelle
  imports
    Main
    "HOL-Library.Word"
    "HOL-Library.Multiset"
    "HOL-Library.Char_ord"
    "HOL-Library.List_Lexorder"
begin

unbundle bit_operations_syntax

section \<open>Bytes, errors and the library primitives the blob store is written against\<close>

type_synonym byte = "8 word"

text \<open>
  Go's \<open>error\<close> values. \<open>ErrBIDCollision\<close> and \<open>ErrBIDNotFound\<close> are the two
  errors declared in \<open>blobstorage.go\<close>, \<open>ErrInsufficientKeySource\<close> is the one the
  cipher factory's tests compare against, \<open>ErrInvalidKey\<close> is the one a
  decryptor refuses a key string with; every other error (a failing read, a failing
  backend write) is an \<open>ErrOther\<close> carrying its message.
\<close>

datatype error =
    ErrBIDCollision
  | ErrBIDNotFound
  | ErrInsufficientKeySource
  | ErrInvalidKey
  | ErrOther string

subsection \<open>\<open>encoding/hex\<close>\<close>

definition hextable :: string where
  "hextable = ''0123456789abcdef''"

text \<open>
  \<open>hex.EncodeToString\<close>: for each byte \<open>v\<close> the two characters
  \<open>hextable[v>>4]\<close> and \<open>hextable[v&0x0f]\<close>.
\<close>

definition hex_byte :: "byte \<Rightarrow> string" where
  "hex_byte v = [hextable ! unat (drop_bit 4 v), hextable ! unat (v AND 0x0f)]"

definition hex_EncodeToString :: "byte list \<Rightarrow> string" where
  "hex_EncodeToString src = concat (map hex_byte src)"

subsection \<open>\<open>hash.Hash\<close>\<close>

text \<open>
  A \<open>hash.Hash\<close> is an accumulator: \<open>Write\<close> appends to the bytes hashed so far
  (it never fails), \<open>Sum(nil)\<close> returns the digest of what was written since the last
  \<open>Reset\<close>, and \<open>Reset\<close> forgets it. The digest function itself (SHA-512 in
  \<open>hashvalidation.go\<close>) belongs to the standard library and is a parameter.
\<close>

type_synonym hasher = "byte list"

definition hasher_New :: hasher where
  "hasher_New = []"

definition hasher_Write :: "byte list \<Rightarrow> hasher \<Rightarrow> hasher" where
  "hasher_Write p h = h @ p"

definition hasher_Reset :: "hasher \<Rightarrow> hasher" where
  "hasher_Reset h = []"

definition hasher_Sum :: "(byte list \<Rightarrow> byte list) \<Rightarrow> hasher \<Rightarrow> byte list" where
  "hasher_Sum digest h = digest h"

subsection \<open>\<open>io.Reader\<close> and \<open>io.Copy\<close>\<close>

text \<open>
  A reader is modelled by what \<open>io.Copy\<close> drains from it: the bytes it delivers, and
  then either end of file (\<open>failure = None\<close>) or a read error. \<open>io.Copy(dst, src)\<close>
  writes every delivered byte to \<open>dst\<close> and returns the read error, if any; the
  destinations it is used with here (a hasher, an encryptor over a \<open>bytes.Buffer\<close>)
  never fail a write.
\<close>

record Reader =
  delivered :: "byte list"
  failure :: "error option"

definition io_Copy :: "(byte list \<Rightarrow> 'd \<Rightarrow> 'd) \<Rightarrow> 'd \<Rightarrow> Reader \<Rightarrow> 'd \<times> error option" where
  "io_Copy write dst src = (write (delivered src) dst, failure src)"

definition bytes_NewReader :: "byte list \<Rightarrow> Reader" where
  "bytes_NewReader b = \<lparr>delivered = b, failure = None\<rparr>"

section \<open>The blob storage interface (\<open>blobstorage.go\<close>)\<close>

text \<open>
  \<open>BlobStorage\<close> and \<open>WriteFinalizeCanceler\<close> are interfaces: the backend is any
  state type \<open>'s\<close> with writer handles \<open>'w\<close>, and every method takes the backend's
  state and returns the new one. \<open>Write\<close> returns only its error: by \<open>io.Writer\<close>'s
  contract a write that accepts fewer bytes than offered returns a non-nil error.
\<close>

record ('s, 'w) BlobStorage =
  NewBlobWriter :: "string \<Rightarrow> 's \<Rightarrow> (error + 'w) \<times> 's"
  Write :: "'w \<Rightarrow> byte list \<Rightarrow> 's \<Rightarrow> error option \<times> 's"
  Finalize :: "'w \<Rightarrow> 's \<Rightarrow> error option \<times> 's"
  Cancel :: "'w \<Rightarrow> 's \<Rightarrow> error option \<times> 's"
  NewBlobReader :: "string \<Rightarrow> 's \<Rightarrow> (error + Reader) \<times> 's"

text \<open>
  \<open>io.Copy(blobWriter, &encryptedBuffer)\<close>: a \<open>bytes.Buffer\<close> source hands all its
  unread bytes to the destination in one \<open>Write\<close>, and makes no call when it is empty.
\<close>

definition io_Copy_Buffer ::
  "('s, 'w) BlobStorage \<Rightarrow> 'w \<Rightarrow> byte list \<Rightarrow> 's \<Rightarrow> error option \<times> 's" where
  "io_Copy_Buffer storage w buf s = (if buf = [] then (None, s) else Write storage w buf s)"

section \<open>The hash-validated blob pipeline (\<open>hashvalidation.go\<close>)\<close>

text \<open>
  What the pipeline uses and the sources do not contain: the digest of
  \<open>crypto/sha512\<close>, the package's \<open>createEncryptor\<close> and the constant
  \<open>validationMethodHash\<close>. \<open>createEncryptor keySource iv\<close> returns the key string
  together with either an error or the encrypting writer; the writer is a stream
  cipher over a \<open>bytes.Buffer\<close>, modelled by the function from the plaintext written
  to it to the ciphertext that reaches the buffer. Both are functions of their
  arguments alone: \<open>fileblobwriter_test.go\<close> expects fixed blob bytes, ids and keys
  for given contents.
\<close>

type_synonym encryptor = "byte list \<Rightarrow> byte list"

record deps =
  sha512 :: "byte list \<Rightarrow> byte list"
  createEncryptor :: "byte list \<Rightarrow> byte list \<Rightarrow> (error + encryptor) \<times> string"
  validationMethodHash :: byte

text \<open>The three named results \<open>(bid string, key string, err error)\<close>.\<close>

record Result =
  bid :: string
  key :: string
  err :: "error option"

text \<open>
  Lines 44 to 52: the writes to the opened blob writer. Each step assigns the named
  result \<open>err\<close> and returns at the first failure.
\<close>

definition writeBlob ::
  "deps \<Rightarrow> ('s, 'w) BlobStorage \<Rightarrow> 'w \<Rightarrow> byte list \<Rightarrow> 's \<Rightarrow> error option \<times> 's" where
  "writeBlob d storage blobWriter encryptedBuffer s1 =
     (case Write storage blobWriter [validationMethodHash d] s1 of
        (Some e, s2) \<Rightarrow> (Some e, s2)
      | (None, s2) \<Rightarrow>
          (case io_Copy_Buffer storage blobWriter encryptedBuffer s2 of
             (Some e, s3) \<Rightarrow> (Some e, s3)
           | (None, s3) \<Rightarrow> Finalize storage blobWriter s3))"

text \<open>
  Lines 39 to 43: the deferred function runs when the pipeline returns and cancels the
  blob writer when the named result \<open>err\<close> is set; the error of \<open>Cancel\<close> itself is
  dropped.
\<close>

definition deferredCancel ::
  "('s, 'w) BlobStorage \<Rightarrow> 'w \<Rightarrow> error option \<times> 's \<Rightarrow> error option \<times> 's" where
  "deferredCancel storage blobWriter r =
     (case r of
        (Some e, s) \<Rightarrow> (Some e, snd (Cancel storage blobWriter s))
      | (None, s) \<Rightarrow> (None, s))"

text \<open>
  \<open>readerGenerator\<close> is called twice; \<open>readerGenerator n\<close> is the reader its call
  number \<open>n\<close> returns. The results of both \<open>io.Copy\<close> calls that read it are
  discarded by the source (lines 18 and 27), so only the bytes delivered matter.
\<close>

definition createHashValidatedBlobFromReaderGenerator ::
  "deps \<Rightarrow> (nat \<Rightarrow> Reader) \<Rightarrow> ('s, 'w) BlobStorage \<Rightarrow> 's \<Rightarrow> Result \<times> 's" where
  "createHashValidatedBlobFromReaderGenerator d readerGenerator storage s =
     (let hasher = fst (io_Copy hasher_Write hasher_New (readerGenerator 0));
          keySource = hasher_Sum (sha512 d) hasher
      in case createEncryptor d keySource [] of
           (Inl e, k) \<Rightarrow> (\<lparr>bid = [], key = k, err = Some e\<rparr>, s)
         | (Inr encryptedWriter, k) \<Rightarrow>
             (let encryptedBuffer =
                    encryptedWriter (fst (io_Copy (\<lambda>p w. w @ p) [] (readerGenerator 1)));
                  hasher = hasher_Reset hasher;
                  hasher = fst (io_Copy hasher_Write hasher (bytes_NewReader encryptedBuffer));
                  b = hex_EncodeToString (hasher_Sum (sha512 d) hasher)
              in case NewBlobWriter storage b s of
                   (Inl e, s1) \<Rightarrow> (\<lparr>bid = b, key = k, err = Some e\<rparr>, s1)
                 | (Inr blobWriter, s1) \<Rightarrow>
                     (case deferredCancel storage blobWriter
                             (writeBlob d storage blobWriter encryptedBuffer s1) of
                        (r, s') \<Rightarrow> (\<lparr>bid = b, key = k, err = r\<rparr>, s'))))"

section \<open>An in-memory backend and stand-ins for the library parameters\<close>

text \<open>
  Modelled from the spec: the in-memory backend the tests build with
  \<open>NewMemoryBlobStorage\<close> is not in the sources. It follows the storage contract of
  the specification: \<open>Write\<close> accumulates staged bytes; \<open>Finalize\<close> commits them
  under the blob id, succeeds without effect when the same content is already stored
  there, and fails with \<open>ErrBIDCollision\<close> when different content is; \<open>Cancel\<close>
  discards the staged bytes; reading an absent id fails with \<open>ErrBIDNotFound\<close>.
  A writer handle is the index of its staging slot.
\<close>

record MemoryBlobStorage =
  blobs :: "(string \<times> byte list) list"
  staging :: "(string \<times> byte list) option list"

definition NewMemoryBlobStorage :: MemoryBlobStorage where
  "NewMemoryBlobStorage = \<lparr>blobs = [], staging = []\<rparr>"

definition memory_staged :: "MemoryBlobStorage \<Rightarrow> nat \<Rightarrow> (string \<times> byte list) option" where
  "memory_staged s w = (if w < length (staging s) then staging s ! w else None)"

definition memory_NewBlobWriter ::
  "string \<Rightarrow> MemoryBlobStorage \<Rightarrow> (error + nat) \<times> MemoryBlobStorage" where
  "memory_NewBlobWriter blobId s =
     (Inr (length (staging s)), s\<lparr>staging := staging s @ [Some (blobId, [])]\<rparr>)"

definition memory_Write ::
  "nat \<Rightarrow> byte list \<Rightarrow> MemoryBlobStorage \<Rightarrow> error option \<times> MemoryBlobStorage" where
  "memory_Write w p s =
     (case memory_staged s w of
        None \<Rightarrow> (Some (ErrOther ''writer is closed''), s)
      | Some (blobId, content) \<Rightarrow>
          (None, s\<lparr>staging := (staging s)[w := Some (blobId, content @ p)]\<rparr>))"

definition memory_Finalize ::
  "nat \<Rightarrow> MemoryBlobStorage \<Rightarrow> error option \<times> MemoryBlobStorage" where
  "memory_Finalize w s =
     (case memory_staged s w of
        None \<Rightarrow> (Some (ErrOther ''writer is closed''), s)
      | Some (blobId, content) \<Rightarrow>
          (case map_of (blobs s) blobId of
             None \<Rightarrow>
               (None, s\<lparr>blobs := (blobId, content) # blobs s,
                         staging := (staging s)[w := None]\<rparr>)
           | Some stored \<Rightarrow>
               (if stored = content then (None, s\<lparr>staging := (staging s)[w := None]\<rparr>)
                else (Some ErrBIDCollision, s))))"

definition memory_Cancel ::
  "nat \<Rightarrow> MemoryBlobStorage \<Rightarrow> error option \<times> MemoryBlobStorage" where
  "memory_Cancel w s = (None, s\<lparr>staging := (staging s)[w := None]\<rparr>)"

definition memory_NewBlobReader ::
  "string \<Rightarrow> MemoryBlobStorage \<Rightarrow> (error + Reader) \<times> MemoryBlobStorage" where
  "memory_NewBlobReader blobId s =
     (case map_of (blobs s) blobId of
        None \<Rightarrow> (Inl ErrBIDNotFound, s)
      | Some content \<Rightarrow> (Inr (bytes_NewReader content), s))"

definition MemoryStorage :: "(MemoryBlobStorage, nat) BlobStorage" where
  "MemoryStorage =
     \<lparr>NewBlobWriter = memory_NewBlobWriter, Write = memory_Write,
      Finalize = memory_Finalize, Cancel = memory_Cancel,
      NewBlobReader = memory_NewBlobReader\<rparr>"

text \<open>
  Stand-ins for the library parameters, used only to run the pipeline on concrete
  inputs: a digest of 64 bytes that depends on its input, and an encryptor that
  refuses key sources shorter than 16 bytes, masks every byte with the first byte of
  the key source and returns the tagged hex encoding of 32 key bytes. The tag byte
  is the \<open>01\<close> every expected blob of \<open>fileblobwriter_test.go\<close> starts with.
\<close>

definition example_digest :: "byte list \<Rightarrow> byte list" where
  "example_digest m = replicate 64 (of_nat (length m) + sum_list m)"

definition example_createEncryptor ::
  "byte list \<Rightarrow> byte list \<Rightarrow> (error + encryptor) \<times> string" where
  "example_createEncryptor keySource iv =
     (if length keySource < 16 then (Inl ErrInsufficientKeySource, [])
      else (Inr (map (\<lambda>b. b XOR hd keySource)),
            ''01'' @ hex_EncodeToString (take 32 keySource)))"

definition example_deps :: deps where
  "example_deps =
     \<lparr>sha512 = example_digest, createEncryptor = example_createEncryptor,
      validationMethodHash = 0x01\<rparr>"

text \<open>
  Two producers for concrete runs: one that delivers the single byte \<open>a\<close> on every
  call, and one that delivers the same byte and then fails its read.
\<close>

definition example_readerGenerator :: "nat \<Rightarrow> Reader" where
  "example_readerGenerator n = bytes_NewReader [0x61]"

definition example_failingGenerator :: "nat \<Rightarrow> Reader" where
  "example_failingGenerator n = \<lparr>delivered = [0x61], failure = Some (ErrOther ''read failed'')\<rparr>"

text \<open>
  A backend for concrete failing runs: its state is the list of the calls made to it,
  oldest first, and a call fails with the error the script gives for it.
\<close>

datatype call = CallNewBlobWriter string | CallWrite "byte list" | CallFinalize | CallCancel

definition RecordingStorage :: "(call \<Rightarrow> error option) \<Rightarrow> (call list, unit) BlobStorage" where
  "RecordingStorage script =
     \<lparr>NewBlobWriter = (\<lambda>blobId calls.
        (case script (CallNewBlobWriter blobId) of None \<Rightarrow> Inr () | Some e \<Rightarrow> Inl e,
         calls @ [CallNewBlobWriter blobId])),
      Write = (\<lambda>w p calls. (script (CallWrite p), calls @ [CallWrite p])),
      Finalize = (\<lambda>w calls. (script CallFinalize, calls @ [CallFinalize])),
      Cancel = (\<lambda>w calls. (script CallCancel, calls @ [CallCancel])),
      NewBlobReader = (\<lambda>blobId calls. (Inl ErrBIDNotFound, calls))\<rparr>"

text \<open>Scripts: no call fails; one kind of call fails with a given error.\<close>

definition failing_open :: "call \<Rightarrow> error option" where
  "failing_open c = (case c of CallNewBlobWriter b \<Rightarrow> Some (ErrOther ''no space'') | _ \<Rightarrow> None)"

definition failing_write :: "byte list \<Rightarrow> call \<Rightarrow> error option" where
  "failing_write p c = (if c = CallWrite p then Some (ErrOther ''disk full'') else None)"

definition failing_finalize :: "call \<Rightarrow> error option" where
  "failing_finalize c = (case c of CallFinalize \<Rightarrow> Some ErrBIDCollision | _ \<Rightarrow> None)"

section \<open>The directory blob writer\<close>

text \<open>
  Of \<open>DirEntry\<close> the sources show the field \<open>Name\<close> only; its other fields are the
  extension part of the record, and every function below is written over
  \<open>'a DirEntry_scheme\<close>.
\<close>

record DirEntry =
  Name :: string

text \<open>
  \<open>sortByName.Less\<close> compares two entries by \<open>s[i].Name < s[j].Name\<close>: Go orders
  strings lexicographically by their bytes.
\<close>

definition sortByName_Less :: "'a DirEntry_scheme \<Rightarrow> 'a DirEntry_scheme \<Rightarrow> bool" where
  "sortByName_Less a b = (Name a < Name b)"

text \<open>
  What the writer uses and the sources do not contain: the constants
  \<open>maxSimpleDirEntries\<close> and \<open>blobTypeSimpleStaticDir\<close>, the serializers
  \<open>serializeInt\<close> and \<open>DirEntry.serialize\<close> (each given by the bytes it appends to
  the buffer) and the library's \<open>sort.Sort\<close>, which takes the \<open>Less\<close> of the
  collection it sorts.
\<close>

record 'a dir_deps =
  maxSimpleDirEntries :: int
  blobTypeSimpleStaticDir :: byte
  serializeInt :: "int \<Rightarrow> byte list"
  serialize :: "'a DirEntry_scheme \<Rightarrow> byte list"
  sort_Sort :: "('a DirEntry_scheme \<Rightarrow> 'a DirEntry_scheme \<Rightarrow> bool) \<Rightarrow>
    'a DirEntry_scheme list \<Rightarrow> 'a DirEntry_scheme list"

record ('s, 'w, 'a) DirBlobWriter =
  Storage :: "('s, 'w) BlobStorage"
  entries :: "'a DirEntry_scheme list"

text \<open>A call returns its results, or panics with a message.\<close>

datatype 'r outcome = Returns 'r | Panics string

definition AddEntry ::
  "('s, 'w, 'a) DirBlobWriter \<Rightarrow> 'a DirEntry_scheme \<Rightarrow> ('s, 'w, 'a) DirBlobWriter \<times> error option" where
  "AddEntry d entry = (d\<lparr>entries := entries d @ [entry]\<rparr>, None)"

text \<open>
  Lines 54 to 67 of \<open>finalizeSimple\<close>: the entries sorted by name, and the buffer
  holding the type byte, the number of entries and every entry in the sorted order.
\<close>

definition finalizeSimple_sorted :: "'a dir_deps \<Rightarrow> 'a DirEntry_scheme list \<Rightarrow> 'a DirEntry_scheme list" where
  "finalizeSimple_sorted dd es = sort_Sort dd sortByName_Less es"

definition finalizeSimple_buffer :: "'a dir_deps \<Rightarrow> 'a DirEntry_scheme list \<Rightarrow> byte list" where
  "finalizeSimple_buffer dd es =
     (let sorted = finalizeSimple_sorted dd es
      in [blobTypeSimpleStaticDir dd] @ serializeInt dd (int (length sorted)) @
         concat (map (serialize dd) sorted))"

text \<open>
  \<open>finalizeSimple\<close> sorts \<open>d.entries\<close> in place and hands the buffer to the
  pipeline through a generator that returns a fresh reader of it on every call.
\<close>

definition finalizeSimple ::
  "deps \<Rightarrow> 'a dir_deps \<Rightarrow> ('s, 'w, 'a) DirBlobWriter \<Rightarrow> 's \<Rightarrow>
     Result \<times> ('s, 'w, 'a) DirBlobWriter \<times> 's" where
  "finalizeSimple d dd w s =
     (let buffer = finalizeSimple_buffer dd (entries w)
      in case createHashValidatedBlobFromReaderGenerator d (\<lambda>n. bytes_NewReader buffer)
                (Storage w) s of
           (r, s') \<Rightarrow> (r, w\<lparr>entries := finalizeSimple_sorted dd (entries w)\<rparr>, s'))"

definition finalizeSplit ::
  "deps \<Rightarrow> 'a dir_deps \<Rightarrow> ('s, 'w, 'a) DirBlobWriter \<Rightarrow> 's \<Rightarrow>
     (Result \<times> ('s, 'w, 'a) DirBlobWriter \<times> 's) outcome" where
  "finalizeSplit d dd w s = Panics ''Unimplemented: split dir blob''"

definition DirBlobWriter_Finalize ::
  "deps \<Rightarrow> 'a dir_deps \<Rightarrow> ('s, 'w, 'a) DirBlobWriter \<Rightarrow> 's \<Rightarrow>
     (Result \<times> ('s, 'w, 'a) DirBlobWriter \<times> 's) outcome" where
  "DirBlobWriter_Finalize d dd w s =
     (if int (length (entries w)) \<le> maxSimpleDirEntries dd then Returns (finalizeSimple d dd w s)
      else finalizeSplit d dd w s)"

text \<open>The writer after \<open>AddEntry\<close> has been called with each entry of a list in turn.\<close>

definition addEntries ::
  "('s, 'w, 'a) DirBlobWriter \<Rightarrow> 'a DirEntry_scheme list \<Rightarrow> ('s, 'w, 'a) DirBlobWriter" where
  "addEntries d es = foldl (\<lambda>w e. fst (AddEntry w e)) d es"

text \<open>
  The contract of \<open>sort.Sort\<close> for \<open>sortByName\<close>: the result holds the same entries,
  and no entry is less than one before it. The sort need not be stable.
\<close>

definition sorts_by_name ::
  "(('a DirEntry_scheme \<Rightarrow> 'a DirEntry_scheme \<Rightarrow> bool) \<Rightarrow>
      'a DirEntry_scheme list \<Rightarrow> 'a DirEntry_scheme list) \<Rightarrow> bool" where
  "sorts_by_name srt \<longleftrightarrow>
     (\<forall>es. mset (srt sortByName_Less es) = mset es \<and>
           sorted_wrt (\<lambda>a b. \<not> sortByName_Less b a) (srt sortByName_Less es))"

text \<open>
  \<open>insertionSort\<close> of Go's \<open>sort\<close> package, which is all \<open>sort.Sort\<close> runs on a
  slice of at most six elements: each element in turn is swapped towards the front
  while it is less than its left neighbour. \<open>sink\<close> works on the part already
  sorted, nearest neighbour first.
\<close>

fun sink :: "('e \<Rightarrow> 'e \<Rightarrow> bool) \<Rightarrow> 'e \<Rightarrow> 'e list \<Rightarrow> 'e list" where
  "sink lt x [] = [x]"
| "sink lt x (y # ys) = (if lt x y then y # sink lt x ys else x # y # ys)"

fun insertionSort_from :: "('e \<Rightarrow> 'e \<Rightarrow> bool) \<Rightarrow> 'e list \<Rightarrow> 'e list \<Rightarrow> 'e list" where
  "insertionSort_from lt front [] = rev front"
| "insertionSort_from lt front (x # xs) = insertionSort_from lt (sink lt x front) xs"

definition insertionSort :: "('e \<Rightarrow> 'e \<Rightarrow> bool) \<Rightarrow> 'e list \<Rightarrow> 'e list" where
  "insertionSort lt xs = insertionSort_from lt [] xs"

text \<open>
  Stand-ins for concrete runs of the directory writer: entries carry one byte list
  besides their name, an entry is serialized as its name's bytes, a zero byte and
  that byte list, the count as one byte, and at most two entries make a simple
  directory.
\<close>

definition example_serialize :: "(byte list) DirEntry_scheme \<Rightarrow> byte list" where
  "example_serialize e = map (of_nat \<circ> of_char) (Name e) @ [0] @ DirEntry.more e"

definition example_dir_deps :: "(byte list) dir_deps" where
  "example_dir_deps =
     \<lparr>maxSimpleDirEntries = 2, blobTypeSimpleStaticDir = 0x02,
      serializeInt = (\<lambda>n. [of_int n]), serialize = example_serialize,
      sort_Sort = insertionSort\<rparr>"

definition example_writer :: "(MemoryBlobStorage, nat, byte list) DirBlobWriter" where
  "example_writer = \<lparr>Storage = MemoryStorage, entries = []\<rparr>"

definition example_entry :: "string \<Rightarrow> byte list \<Rightarrow> (byte list) DirEntry_scheme" where
  "example_entry n m = \<lparr>Name = n, \<dots> = m\<rparr>"

text \<open>
  A digest stand-in that depends on the order of the bytes, for runs that compare
  two byte strings with the same bytes in another order.
\<close>

definition example_ordered_digest :: "byte list \<Rightarrow> byte list" where
  "example_ordered_digest m = replicate 64 (foldl (\<lambda>h b. 3 * h + b) 0 m)"

definition example_ordered_deps :: deps where
  "example_ordered_deps = example_deps\<lparr>sha512 := example_ordered_digest\<rparr>"

section \<open>The cipher factory\<close>

text \<open>
  \<open>hex.DecodeString\<close>: two hex digits of either case make a byte, the first one its
  high half; a string of odd length or with any other character is rejected.
\<close>

definition fromHexChar :: "char \<Rightarrow> byte option" where
  "fromHexChar c =
     (let n = (of_char c :: nat)
      in if 48 \<le> n \<and> n \<le> 57 then Some (of_nat (n - 48))
         else if 97 \<le> n \<and> n \<le> 102 then Some (of_nat (n - 97 + 10))
         else if 65 \<le> n \<and> n \<le> 70 then Some (of_nat (n - 65 + 10))
         else None)"

fun hex_DecodeString :: "string \<Rightarrow> byte list option" where
  "hex_DecodeString [] = Some []"
| "hex_DecodeString [c] = None"
| "hex_DecodeString (a # b # cs) =
     (case (fromHexChar a, fromHexChar b, hex_DecodeString cs) of
        (Some h, Some l, Some rest) \<Rightarrow> Some ((push_bit 4 h OR l) # rest)
      | _ \<Rightarrow> None)"

text \<open>
  Modelled from the spec: the cipher factory (\<open>Create\<close>, \<open>GetMinKeySourceBytes\<close>,
  \<open>CreateEncryptor\<close>, \<open>CreateDecryptor\<close>) is not in the sources, only its tests
  are. Following the specification, \<open>CreateEncryptor\<close> fails with
  \<open>ErrInsufficientKeySource\<close> when the key source is shorter than
  \<open>MinKeySourceBytes\<close> and accepts an iv of every length; the key it returns is the
  printable string made of an algorithm tag followed by the key material, in hex;
  \<open>CreateDecryptor\<close> rejects a key string that is empty, is not such an encoding,
  or carries another tag or a key of another size. The cipher is a stream cipher
  given by its key stream, a parameter like the key derivation: encryptor and
  decryptor combine byte number \<open>i\<close> of their input with byte number \<open>i\<close> of the
  key stream of the key material and the iv by XOR, as a \<open>cipher.Stream\<close> does.
\<close>

record cipher =
  MinKeySourceBytes :: nat
  keyTag :: byte
  keyBytes :: nat
  deriveKey :: "byte list \<Rightarrow> byte list"
  keyStream :: "byte list \<Rightarrow> byte list \<Rightarrow> nat \<Rightarrow> byte"

definition xorKeyStream :: "(nat \<Rightarrow> byte) \<Rightarrow> byte list \<Rightarrow> byte list" where
  "xorKeyStream ks p = map (\<lambda>(i, b). b XOR ks i) (enumerate 0 p)"

definition CreateEncryptor ::
  "cipher \<Rightarrow> byte list \<Rightarrow> byte list \<Rightarrow> (error + encryptor) \<times> string" where
  "CreateEncryptor c keySource iv =
     (if length keySource < MinKeySourceBytes c then (Inl ErrInsufficientKeySource, [])
      else (let k = deriveKey c keySource
            in (Inr (xorKeyStream (keyStream c k iv)), hex_EncodeToString (keyTag c # k))))"

definition CreateDecryptor ::
  "cipher \<Rightarrow> string \<Rightarrow> byte list \<Rightarrow> error + (byte list \<Rightarrow> byte list)" where
  "CreateDecryptor c keyString iv =
     (case hex_DecodeString keyString of
        None \<Rightarrow> Inl ErrInvalidKey
      | Some [] \<Rightarrow> Inl ErrInvalidKey
      | Some (t # k) \<Rightarrow>
          (if t = keyTag c \<and> length k = keyBytes c
           then Inr (xorKeyStream (keyStream c k iv))
           else Inl ErrInvalidKey))"

text \<open>
  A cipher for concrete runs: 16 bytes of key source at least, the tag \<open>01\<close>, the
  first 16 bytes of the key source as key, and a key stream that mixes the key, the
  iv and the position.
\<close>

definition example_cipher :: cipher where
  "example_cipher =
     \<lparr>MinKeySourceBytes = 16, keyTag = 0x01, keyBytes = 16, deriveKey = take 16,
      keyStream = (\<lambda>k iv i. k ! (i mod 16) + sum_list iv + of_nat i + 0x5a)\<rparr>"

section \<open>The chunked file writer\<close>

text \<open>
  Modelled from the spec: \<open>FileBlobWriter\<close> is not in the sources, only its test
  \<open>fileblobwriter_test.go\<close> is. Following the specification, \<open>Write\<close> accumulates
  the content; \<open>Finalize\<close> stores content of at most \<open>BlockSize\<close> bytes through
  the pipeline as one blob; longer content is cut into successive blocks of up to
  \<open>BlockSize\<close> bytes, each block is stored through the pipeline in stream order
  as a file of its own, and the index record listing the blocks' capabilities in that
  order is stored through the pipeline; an index record longer than \<open>BlockSize\<close>
  is split by the same rule, one level deep. A failing pipeline run aborts the
  operation with its error and no capability.

  The blobs, ids and keys the test expects fix what the specification leaves open.
  The plaintext of a single blob is the type byte \<open>01\<close> followed by the content:
  the blob expected for the empty file holds one byte besides the validation tag,
  and every expected key is the digest of that plaintext. The plaintext of the index
  record expected for the file of \<open>BlockSize + 1\<close> bytes is the type byte \<open>02\<close>,
  the length of the file and the number of blocks, each as a base-128 integer with
  the low digit first, and then for every block its blob id and its key, each as its
  length and its characters; its first block is the blob expected for the file of
  \<open>BlockSize\<close> bytes.
\<close>

definition BlockSize :: nat where
  "BlockSize = 16 * 1024 * 1024"

definition blobTypeSimpleStaticFile :: byte where
  "blobTypeSimpleStaticFile = 0x01"

definition blobTypeSplitStaticFile :: byte where
  "blobTypeSplitStaticFile = 0x02"

type_synonym capability = "string \<times> string"

function splitBlocks :: "nat \<Rightarrow> byte list \<Rightarrow> byte list list" where
  "splitBlocks n content =
     (if n = 0 \<or> content = [] then [] else take n content # splitBlocks n (drop n content))"
  by pat_completeness auto
termination
  by (relation "measure (\<lambda>(n, content). length content)") auto

declare splitBlocks.simps [simp del]

function varint :: "nat \<Rightarrow> byte list" where
  "varint n = (if n < 128 then [of_nat n] else of_nat (128 + n mod 128) # varint (n div 128))"
  by pat_completeness auto
termination
  by (relation "measure (\<lambda>n. n)") auto

declare varint.simps [simp del]

definition serializeString :: "string \<Rightarrow> byte list" where
  "serializeString str = varint (length str) @ map (of_nat \<circ> of_char) str"

definition fileIndex :: "nat \<Rightarrow> capability list \<Rightarrow> byte list" where
  "fileIndex fileLength caps =
     blobTypeSplitStaticFile # varint fileLength @ varint (length caps) @
     concat (map (\<lambda>(b, k). serializeString b @ serializeString k) caps)"

definition FileBlobWriter_Write :: "byte list \<Rightarrow> byte list \<Rightarrow> byte list" where
  "FileBlobWriter_Write content p = content @ p"

definition storeBlob ::
  "deps \<Rightarrow> ('s, 'w) BlobStorage \<Rightarrow> byte list \<Rightarrow> 's \<Rightarrow> Result \<times> 's" where
  "storeBlob d storage plaintext s =
     (case createHashValidatedBlobFromReaderGenerator d (\<lambda>n. bytes_NewReader plaintext)
             storage s of
        (r, s') \<Rightarrow>
          (case err r of
             None \<Rightarrow> (r, s')
           | Some e \<Rightarrow> (\<lparr>bid = [], key = [], err = Some e\<rparr>, s')))"

fun storeBlocks ::
  "deps \<Rightarrow> ('s, 'w) BlobStorage \<Rightarrow> byte list list \<Rightarrow> 's \<Rightarrow> (error + capability list) \<times> 's" where
  "storeBlocks d storage [] s = (Inr [], s)"
| "storeBlocks d storage (block # rest) s =
     (case storeBlob d storage (blobTypeSimpleStaticFile # block) s of
        (r, s1) \<Rightarrow>
          (case err r of
             Some e \<Rightarrow> (Inl e, s1)
           | None \<Rightarrow>
               (case storeBlocks d storage rest s1 of
                  (Inl e, s2) \<Rightarrow> (Inl e, s2)
                | (Inr caps, s2) \<Rightarrow> (Inr ((bid r, key r) # caps), s2))))"

definition storeIndexed ::
  "deps \<Rightarrow> ('s, 'w) BlobStorage \<Rightarrow> byte list \<Rightarrow> (byte list \<Rightarrow> 's \<Rightarrow> Result \<times> 's) \<Rightarrow> 's \<Rightarrow>
     Result \<times> 's" where
  "storeIndexed d storage content storeIndex s =
     (case storeBlocks d storage (splitBlocks BlockSize content) s of
        (Inl e, s1) \<Rightarrow> (\<lparr>bid = [], key = [], err = Some e\<rparr>, s1)
      | (Inr caps, s1) \<Rightarrow> storeIndex (fileIndex (length content) caps) s1)"

definition storeIndex ::
  "deps \<Rightarrow> ('s, 'w) BlobStorage \<Rightarrow> byte list \<Rightarrow> 's \<Rightarrow> Result \<times> 's" where
  "storeIndex d storage index s =
     (if length index \<le> BlockSize then storeBlob d storage index s
      else storeIndexed d storage index (storeBlob d storage) s)"





section \<open>Properties of the hex encoding\<close>

lemma hex_byte_length: "length (hex_byte v) = 2"
  by (simp add: hex_byte_def)

lemma length_hex_EncodeToString: "length (hex_EncodeToString bs) = 2 * length bs"
  by (induction bs) (simp_all add: hex_EncodeToString_def hex_byte_length)

lemma high_nibble_bound: "unat (drop_bit 4 (v::byte)) < 16"
proof -
  have "unat v < 256"
    using unsigned_less [of v, where ?'a = nat] by simp
  moreover have "unat (drop_bit 4 v) = drop_bit 4 (unat v)"
    by (simp only: unat_drop_bit_eq)
  moreover have "drop_bit 4 (unat v) = unat v div 16"
    by (simp add: drop_bit_eq_div)
  ultimately show ?thesis by simp
qed

lemma low_nibble_bound: "unat ((v::byte) AND 0x0f) < 16"
proof -
  have "unat (v AND 15) \<le> unat (15 :: byte)"
    by (rule word_and_le1 [THEN word_le_nat_alt [THEN iffD1]])
  then show ?thesis by simp
qed

lemma hextable_nth: "n < 16 \<Longrightarrow> hextable ! n \<in> set hextable"
proof -
  assume "n < 16"
  moreover have "length hextable = 16" by (simp add: hextable_def)
  ultimately show ?thesis by (simp only: nth_mem)
qed

lemma hex_byte_chars: "set (hex_byte v) \<subseteq> set hextable"
  using hextable_nth [OF high_nibble_bound [of v]] hextable_nth [OF low_nibble_bound [of v]]
  by (simp add: hex_byte_def)

lemma hex_EncodeToString_chars: "set (hex_EncodeToString bs) \<subseteq> set hextable"
  using hex_byte_chars by (auto simp: hex_EncodeToString_def)

section \<open>Decoding what the hex encoding produced\<close>

lemma hex_nibble_roundtrip:
  assumes "i < 16"
  shows "fromHexChar (hextable ! i) = Some (of_nat i)"
proof -
  have digit: "fromHexChar (hextable ! i) = Some (of_nat i)" if "i \<in> {0, 1, 2, 3, 4, 5, 6, 7, 8, 9}"
    using that by (auto simp: fromHexChar_def hextable_def)
  have letter: "fromHexChar (hextable ! i) = Some (of_nat i)" if "i \<in> {10, 11, 12, 13, 14, 15}"
    using that by (auto simp: fromHexChar_def hextable_def)
  from assms have "i \<le> 9 \<or> (10 \<le> i \<and> i \<le> 15)" by arith
  then show ?thesis
  proof
    assume "i \<le> 9"
    then have "i \<in> {0, 1, 2, 3, 4, 5, 6, 7, 8, 9}" by (simp add: insert_iff) arith
    then show ?thesis by (rule digit)
  next
    assume "10 \<le> i \<and> i \<le> 15"
    then have "i \<in> {10, 11, 12, 13, 14, 15}" by (simp add: insert_iff) arith
    then show ?thesis by (rule letter)
  qed
qed

lemma fifteen_is_mask: "(15 :: byte) = mask 4"
  by (simp add: mask_eq_exp_minus_1)

lemma byte_of_nibbles: "push_bit 4 (drop_bit 4 v) OR (v AND 0x0f) = (v :: byte)"
  unfolding fifteen_is_mask
proof (rule bit_eqI)
  fix n
  show "bit (push_bit 4 (drop_bit 4 v) OR (v AND mask 4)) n = bit v n"
    by (cases "n < 4") (auto simp: bit_simps dest: bit_imp_possible_bit)
qed

lemma hex_byte_roundtrip: "hex_DecodeString (hex_byte v @ cs) =
  (case hex_DecodeString cs of Some rest \<Rightarrow> Some (v # rest) | None \<Rightarrow> None)"
  using hex_nibble_roundtrip [OF high_nibble_bound [of v]]
    hex_nibble_roundtrip [OF low_nibble_bound [of v]] byte_of_nibbles [of v]
  by (simp add: hex_byte_def split: option.splits)

lemma hex_roundtrip: "hex_DecodeString (hex_EncodeToString bs) = Some bs"
  by (induction bs) (simp_all add: hex_EncodeToString_def hex_byte_roundtrip)


lemma hex_EncodeToString_inject:
  "hex_EncodeToString xs = hex_EncodeToString ys \<longleftrightarrow> xs = ys"
  by (metis hex_roundtrip option.inject)

section \<open>The pipeline, branch by branch\<close>

lemma pipeline_encryptor_error:
  "createEncryptor d (sha512 d (delivered (rg 0))) [] = (Inl e, k) \<Longrightarrow>
   createHashValidatedBlobFromReaderGenerator d rg st s =
     (\<lparr>bid = [], key = k, err = Some e\<rparr>, s)"
  by (simp add: createHashValidatedBlobFromReaderGenerator_def io_Copy_def hasher_Write_def
      hasher_New_def hasher_Sum_def)

lemma pipeline_open_error:
  "createEncryptor d (sha512 d (delivered (rg 0))) [] = (Inr enc, k) \<Longrightarrow>
   NewBlobWriter st (hex_EncodeToString (sha512 d (enc (delivered (rg 1))))) s = (Inl e, s1) \<Longrightarrow>
   createHashValidatedBlobFromReaderGenerator d rg st s =
     (\<lparr>bid = hex_EncodeToString (sha512 d (enc (delivered (rg 1)))), key = k,
       err = Some e\<rparr>, s1)"
  by (simp add: createHashValidatedBlobFromReaderGenerator_def io_Copy_def hasher_Write_def
      hasher_New_def hasher_Sum_def hasher_Reset_def bytes_NewReader_def Let_def)

lemma pipeline_opened:
  "createEncryptor d (sha512 d (delivered (rg 0))) [] = (Inr enc, k) \<Longrightarrow>
   NewBlobWriter st (hex_EncodeToString (sha512 d (enc (delivered (rg 1))))) s = (Inr w, s1) \<Longrightarrow>
   deferredCancel st w (writeBlob d st w (enc (delivered (rg 1))) s1) = (r, s') \<Longrightarrow>
   createHashValidatedBlobFromReaderGenerator d rg st s =
     (\<lparr>bid = hex_EncodeToString (sha512 d (enc (delivered (rg 1)))), key = k, err = r\<rparr>, s')"
  by (simp add: createHashValidatedBlobFromReaderGenerator_def io_Copy_def hasher_Write_def
      hasher_New_def hasher_Sum_def hasher_Reset_def bytes_NewReader_def Let_def)

lemma writeBlob_ok:
  "writeBlob d st w ct s1 = (None, s') \<longleftrightarrow>
     (\<exists>s2 s3. Write st w [validationMethodHash d] s1 = (None, s2) \<and>
        io_Copy_Buffer st w ct s2 = (None, s3) \<and> Finalize st w s3 = (None, s'))"
  by (auto simp: writeBlob_def split: prod.splits option.splits)

lemma writeBlob_failed:
  "writeBlob d st w ct s1 = (Some e, sf) \<longleftrightarrow>
     (Write st w [validationMethodHash d] s1 = (Some e, sf) \<or>
      (\<exists>s2. Write st w [validationMethodHash d] s1 = (None, s2) \<and>
         io_Copy_Buffer st w ct s2 = (Some e, sf)) \<or>
      (\<exists>s2 s3. Write st w [validationMethodHash d] s1 = (None, s2) \<and>
         io_Copy_Buffer st w ct s2 = (None, s3) \<and> Finalize st w s3 = (Some e, sf)))"
  by (auto simp: writeBlob_def split: prod.splits option.splits)

lemma deferredCancel_ok: "deferredCancel st w x = (None, s') \<longleftrightarrow> x = (None, s')"
  by (auto simp: deferredCancel_def split: prod.splits option.splits)

lemma deferredCancel_failed:
  "deferredCancel st w x = (Some e, s') \<longleftrightarrow> (\<exists>sf. x = (Some e, sf) \<and> s' = snd (Cancel st w sf))"
  by (auto simp: deferredCancel_def split: prod.splits option.splits)

lemma pipeline_cases:
  obtains (encryptor_error) e k where
      "createEncryptor d (sha512 d (delivered (rg 0))) [] = (Inl e, k)"
      "createHashValidatedBlobFromReaderGenerator d rg st s =
         (\<lparr>bid = [], key = k, err = Some e\<rparr>, s)"
  | (open_error) enc k e s1 where
      "createEncryptor d (sha512 d (delivered (rg 0))) [] = (Inr enc, k)"
      "NewBlobWriter st (hex_EncodeToString (sha512 d (enc (delivered (rg 1))))) s = (Inl e, s1)"
      "createHashValidatedBlobFromReaderGenerator d rg st s =
         (\<lparr>bid = hex_EncodeToString (sha512 d (enc (delivered (rg 1)))), key = k,
           err = Some e\<rparr>, s1)"
  | (opened) enc k w s1 x sf where
      "createEncryptor d (sha512 d (delivered (rg 0))) [] = (Inr enc, k)"
      "NewBlobWriter st (hex_EncodeToString (sha512 d (enc (delivered (rg 1))))) s = (Inr w, s1)"
      "deferredCancel st w (writeBlob d st w (enc (delivered (rg 1))) s1) = (x, sf)"
      "createHashValidatedBlobFromReaderGenerator d rg st s =
         (\<lparr>bid = hex_EncodeToString (sha512 d (enc (delivered (rg 1)))), key = k,
           err = x\<rparr>, sf)"
proof (cases "createEncryptor d (sha512 d (delivered (rg 0))) []")
  case (Pair y k)
  show ?thesis
  proof (cases y)
    case (Inl e)
    with Pair show ?thesis
      using encryptor_error pipeline_encryptor_error [of d rg e k st s] by simp
  next
    case (Inr enc)
    obtain z s1 where nb:
      "NewBlobWriter st (hex_EncodeToString (sha512 d (enc (delivered (rg 1))))) s = (z, s1)"
      by force
    show ?thesis
    proof (cases z)
      case (Inl e)
      with Pair Inr nb show ?thesis
        using open_error pipeline_open_error [of d rg enc k st s e s1] by simp
    next
      case w: (Inr w)
      obtain x sf where
        "deferredCancel st w (writeBlob d st w (enc (delivered (rg 1))) s1) = (x, sf)"
        by force
      with Pair Inr nb w show ?thesis
        using opened pipeline_opened [of d rg enc k st s w s1 x sf] by simp
    qed
  qed
qed

section \<open>Concrete runs on the in-memory backend\<close>

lemmas example_defs =
  createHashValidatedBlobFromReaderGenerator_def io_Copy_def hasher_Write_def
  hasher_New_def hasher_Sum_def hasher_Reset_def bytes_NewReader_def Let_def
  example_deps_def example_digest_def example_createEncryptor_def
  MemoryStorage_def NewMemoryBlobStorage_def memory_NewBlobWriter_def memory_Write_def
  memory_Finalize_def memory_Cancel_def memory_staged_def writeBlob_def deferredCancel_def
  io_Copy_Buffer_def example_readerGenerator_def example_failingGenerator_def

lemma example_run:
  "createHashValidatedBlobFromReaderGenerator example_deps example_readerGenerator
     MemoryStorage NewMemoryBlobStorage =
   (\<lparr>bid = hex_EncodeToString (replicate 64 0x04),
     key = ''01'' @ hex_EncodeToString (replicate 32 0x62), err = None\<rparr>,
    \<lparr>blobs = [(hex_EncodeToString (replicate 64 0x04), [0x01, 0x03])], staging = [None]\<rparr>)"
  by (simp add: example_defs)

lemma example_rerun:
  "createHashValidatedBlobFromReaderGenerator example_deps example_readerGenerator MemoryStorage
     \<lparr>blobs = [(hex_EncodeToString (replicate 64 0x04), [0x01, 0x03])], staging = [None]\<rparr> =
   (\<lparr>bid = hex_EncodeToString (replicate 64 0x04),
     key = ''01'' @ hex_EncodeToString (replicate 32 0x62), err = None\<rparr>,
    \<lparr>blobs = [(hex_EncodeToString (replicate 64 0x04), [0x01, 0x03])],
     staging = [None, None]\<rparr>)"
  by (simp add: example_defs)

lemma example_collision_run:
  "createHashValidatedBlobFromReaderGenerator example_deps example_readerGenerator MemoryStorage
     \<lparr>blobs = [(hex_EncodeToString (replicate 64 0x04), [0xff])], staging = []\<rparr> =
   (\<lparr>bid = hex_EncodeToString (replicate 64 0x04),
     key = ''01'' @ hex_EncodeToString (replicate 32 0x62), err = Some ErrBIDCollision\<rparr>,
    \<lparr>blobs = [(hex_EncodeToString (replicate 64 0x04), [0xff])], staging = [None]\<rparr>)"
  by (simp add: example_defs)

section \<open>Claims about the pipeline\<close>

text \<open>
  Claim C1. Whenever the producer delivers the same plaintext \<open>P\<close> on both of its
  calls and the pipeline returns without error, the key it returns is the one
  \<open>createEncryptor\<close> derived from the digest of \<open>P\<close> as key source and the empty
  initialisation vector, the blob id is the hex encoding of the digest of the
  ciphertext of the whole of \<open>P\<close> alone, and the storage has seen, in this order, a
  blob writer opened under that id, a write of the single validation-method tag byte,
  the ciphertext handed over by \<open>io.Copy\<close>, and a successful \<open>Finalize\<close>, whose
  state is the final one.
\<close>

theorem pipeline_success:
  assumes "delivered (rg 0) = P" and "delivered (rg 1) = P"
    and "createHashValidatedBlobFromReaderGenerator d rg storage s = (r, s')"
    and "err r = None"
  shows "\<exists>enc w s1 s2 s3.
           createEncryptor d (sha512 d P) [] = (Inr enc, key r) \<and>
           bid r = hex_EncodeToString (sha512 d (enc P)) \<and>
           NewBlobWriter storage (bid r) s = (Inr w, s1) \<and>
           Write storage w [validationMethodHash d] s1 = (None, s2) \<and>
           io_Copy_Buffer storage w (enc P) s2 = (None, s3) \<and>
           Finalize storage w s3 = (None, s')"
proof (cases "createEncryptor d (sha512 d P) []")
  case (Pair x k)
  show ?thesis
  proof (cases x)
    case (Inl e)
    with Pair assms pipeline_encryptor_error [of d rg e k storage s]
    show ?thesis by auto
  next
    case (Inr enc)
    let ?b = "hex_EncodeToString (sha512 d (enc P))"
    obtain y s1 where nb: "NewBlobWriter storage ?b s = (y, s1)" by force
    show ?thesis
    proof (cases y)
      case (Inl e)
      with Pair Inr nb assms pipeline_open_error [of d rg enc k storage s e s1]
      show ?thesis by auto
    next
      case w: (Inr w)
      obtain x sf where dc: "deferredCancel storage w (writeBlob d storage w (enc P) s1) = (x, sf)"
        by force
      from Pair Inr nb w dc assms pipeline_opened [of d rg enc k storage s w s1 x sf]
      have r: "r = \<lparr>bid = ?b, key = k, err = x\<rparr>" and s': "s' = sf" by auto
      with assms have "x = None" by simp
      with dc s' have "writeBlob d storage w (enc P) s1 = (None, s')"
        by (simp add: deferredCancel_ok)
      then obtain s2 s3 where "Write storage w [validationMethodHash d] s1 = (None, s2)"
        "io_Copy_Buffer storage w (enc P) s2 = (None, s3)" "Finalize storage w s3 = (None, s')"
        by (auto simp: writeBlob_ok)
      with Pair Inr nb w r show ?thesis by auto
    qed
  qed
qed

theorem pipeline_success_witness:
  "delivered (example_readerGenerator 0) = [0x61] \<and>
   delivered (example_readerGenerator 1) = [0x61] \<and>
   err (fst (createHashValidatedBlobFromReaderGenerator example_deps example_readerGenerator
          MemoryStorage NewMemoryBlobStorage)) = None \<and>
   (\<exists>enc w s1 s2 s3.
      createEncryptor example_deps (sha512 example_deps [0x61]) [] =
        (Inr enc, ''01'' @ hex_EncodeToString (replicate 32 0x62)) \<and>
      hex_EncodeToString (replicate 64 0x04) =
        hex_EncodeToString (sha512 example_deps (enc [0x61])) \<and>
      NewBlobWriter MemoryStorage (hex_EncodeToString (replicate 64 0x04)) NewMemoryBlobStorage =
        (Inr w, s1) \<and>
      Write MemoryStorage w [validationMethodHash example_deps] s1 = (None, s2) \<and>
      io_Copy_Buffer MemoryStorage w (enc [0x61]) s2 = (None, s3) \<and>
      Finalize MemoryStorage w s3 =
        (None, \<lparr>blobs = [(hex_EncodeToString (replicate 64 0x04), [0x01, 0x03])],
                staging = [None]\<rparr>))"
proof -
  have g: "delivered (example_readerGenerator 0) = [0x61]"
    "delivered (example_readerGenerator 1) = [0x61]"
    by (simp_all add: example_readerGenerator_def bytes_NewReader_def)
  show ?thesis
    using g pipeline_success [OF g example_run] by (simp add: example_run)
qed

text \<open>
  Claim C3 says that a failing read of the producer is returned to the caller. The
  source discards the result of \<open>io.Copy\<close> in the hashing pass (line 18) and in the
  encryption pass (line 27), although it checks the one of line 47: the failure field
  of a reader has no influence on the pipeline at all.
\<close>

lemma pipeline_ignores_read_failure:
  "createHashValidatedBlobFromReaderGenerator d (\<lambda>n. (rg n)\<lparr>failure := None\<rparr>) storage s =
   createHashValidatedBlobFromReaderGenerator d rg storage s"
  by (simp add: createHashValidatedBlobFromReaderGenerator_def io_Copy_def Let_def
      split: prod.splits sum.splits)

text \<open>
  Claim C3, at a concrete input: both reads of the producer fail with an error after
  delivering one byte, and the pipeline stores the blob built from that byte and
  returns no error.
\<close>

theorem pipeline_swallows_read_error:
  "failure (example_failingGenerator 0) = Some (ErrOther ''read failed'') \<and>
   failure (example_failingGenerator 1) = Some (ErrOther ''read failed'') \<and>
   createHashValidatedBlobFromReaderGenerator example_deps example_failingGenerator
     MemoryStorage NewMemoryBlobStorage =
   (\<lparr>bid = hex_EncodeToString (replicate 64 0x04),
     key = ''01'' @ hex_EncodeToString (replicate 32 0x62), err = None\<rparr>,
    \<lparr>blobs = [(hex_EncodeToString (replicate 64 0x04), [0x01, 0x03])], staging = [None]\<rparr>)"
  by (simp add: example_defs)

text \<open>
  Claim C4. The blob id and the key the pipeline returns depend on the plaintext
  alone: two runs whose producers deliver the same plaintext \<open>P\<close> on both calls
  return the same blob id and the same key, whatever the two storages and their
  states are (in particular over storages in the same state).
\<close>

theorem pipeline_deterministic:
  assumes "delivered (rg 0) = P" and "delivered (rg 1) = P"
    and "delivered (rg' 0) = P" and "delivered (rg' 1) = P"
  shows "bid (fst (createHashValidatedBlobFromReaderGenerator d rg storage s)) =
           bid (fst (createHashValidatedBlobFromReaderGenerator d rg' storage' s')) \<and>
         key (fst (createHashValidatedBlobFromReaderGenerator d rg storage s)) =
           key (fst (createHashValidatedBlobFromReaderGenerator d rg' storage' s'))"
proof -
  have a: "bid (fst (createHashValidatedBlobFromReaderGenerator d g st t)) =
             (case createEncryptor d (sha512 d P) [] of
                (Inl e, k) \<Rightarrow> [] | (Inr enc, k) \<Rightarrow> hex_EncodeToString (sha512 d (enc P))) \<and>
           key (fst (createHashValidatedBlobFromReaderGenerator d g st t)) =
             snd (createEncryptor d (sha512 d P) [])"
    if "delivered (g 0) = P" "delivered (g 1) = P" for g and st :: "('x, 'y) BlobStorage" and t
    using that by (cases d g st t rule: pipeline_cases) simp_all
  from a [of rg storage s] a [of rg' storage' s'] assms show ?thesis by simp
qed

theorem pipeline_deterministic_witness:
  "bid (fst (createHashValidatedBlobFromReaderGenerator example_deps example_readerGenerator
          MemoryStorage NewMemoryBlobStorage)) =
   bid (fst (createHashValidatedBlobFromReaderGenerator example_deps example_failingGenerator
          MemoryStorage
          \<lparr>blobs = [(hex_EncodeToString (replicate 64 0x04), [0x01, 0x03])],
           staging = [None]\<rparr>)) \<and>
   key (fst (createHashValidatedBlobFromReaderGenerator example_deps example_readerGenerator
          MemoryStorage NewMemoryBlobStorage)) =
   key (fst (createHashValidatedBlobFromReaderGenerator example_deps example_failingGenerator
          MemoryStorage
          \<lparr>blobs = [(hex_EncodeToString (replicate 64 0x04), [0x01, 0x03])],
           staging = [None]\<rparr>))"
  by (rule pipeline_deterministic [of _ "[0x61]"])
    (simp_all add: example_readerGenerator_def example_failingGenerator_def bytes_NewReader_def)

text \<open>
  Claim C5. Once \<open>createEncryptor\<close> has succeeded and the blob writer \<open>w\<close> has been
  opened, a failure with an error \<open>e\<close> of the tag write, of the ciphertext copy or
  of \<open>Finalize\<close>, leaving the storage in a state \<open>sf\<close>, makes the pipeline return
  \<open>e\<close> with the storage in the state \<open>Cancel\<close> on \<open>w\<close> leaves from \<open>sf\<close>:
  \<open>Cancel\<close> is the last call the storage sees. When no writer was opened, the error
  is returned and the storage is not written to: a failing \<open>createEncryptor\<close> leaves
  it in its initial state, and after a failing \<open>NewBlobWriter\<close> no further call is
  made.
\<close>

theorem pipeline_failure_cancels_writer:
  "(createEncryptor d (sha512 d (delivered (rg 0))) [] = (Inl e, k) \<longrightarrow>
      createHashValidatedBlobFromReaderGenerator d rg storage s =
        (\<lparr>bid = [], key = k, err = Some e\<rparr>, s)) \<and>
   (createEncryptor d (sha512 d (delivered (rg 0))) [] = (Inr enc, k) \<and>
    NewBlobWriter storage (hex_EncodeToString (sha512 d (enc (delivered (rg 1))))) s =
      (Inl e, s1) \<longrightarrow>
      createHashValidatedBlobFromReaderGenerator d rg storage s =
        (\<lparr>bid = hex_EncodeToString (sha512 d (enc (delivered (rg 1)))), key = k,
          err = Some e\<rparr>, s1)) \<and>
   (createEncryptor d (sha512 d (delivered (rg 0))) [] = (Inr enc, k) \<and>
    NewBlobWriter storage (hex_EncodeToString (sha512 d (enc (delivered (rg 1))))) s =
      (Inr w, s1) \<and>
    (Write storage w [validationMethodHash d] s1 = (Some e, sf) \<or>
     (\<exists>s2. Write storage w [validationMethodHash d] s1 = (None, s2) \<and>
        io_Copy_Buffer storage w (enc (delivered (rg 1))) s2 = (Some e, sf)) \<or>
     (\<exists>s2 s3. Write storage w [validationMethodHash d] s1 = (None, s2) \<and>
        io_Copy_Buffer storage w (enc (delivered (rg 1))) s2 = (None, s3) \<and>
        Finalize storage w s3 = (Some e, sf))) \<longrightarrow>
      createHashValidatedBlobFromReaderGenerator d rg storage s =
        (\<lparr>bid = hex_EncodeToString (sha512 d (enc (delivered (rg 1)))), key = k,
          err = Some e\<rparr>, snd (Cancel storage w sf)))"
proof (intro conjI impI)
  assume "createEncryptor d (sha512 d (delivered (rg 0))) [] = (Inl e, k)"
  then show "createHashValidatedBlobFromReaderGenerator d rg storage s =
      (\<lparr>bid = [], key = k, err = Some e\<rparr>, s)"
    by (rule pipeline_encryptor_error)
next
  assume "createEncryptor d (sha512 d (delivered (rg 0))) [] = (Inr enc, k) \<and>
    NewBlobWriter storage (hex_EncodeToString (sha512 d (enc (delivered (rg 1))))) s =
      (Inl e, s1)"
  then show "createHashValidatedBlobFromReaderGenerator d rg storage s =
      (\<lparr>bid = hex_EncodeToString (sha512 d (enc (delivered (rg 1)))), key = k,
        err = Some e\<rparr>, s1)"
    by (simp add: pipeline_open_error)
next
  assume a: "createEncryptor d (sha512 d (delivered (rg 0))) [] = (Inr enc, k) \<and>
    NewBlobWriter storage (hex_EncodeToString (sha512 d (enc (delivered (rg 1))))) s =
      (Inr w, s1) \<and>
    (Write storage w [validationMethodHash d] s1 = (Some e, sf) \<or>
     (\<exists>s2. Write storage w [validationMethodHash d] s1 = (None, s2) \<and>
        io_Copy_Buffer storage w (enc (delivered (rg 1))) s2 = (Some e, sf)) \<or>
     (\<exists>s2 s3. Write storage w [validationMethodHash d] s1 = (None, s2) \<and>
        io_Copy_Buffer storage w (enc (delivered (rg 1))) s2 = (None, s3) \<and>
        Finalize storage w s3 = (Some e, sf)))"
  then have "writeBlob d storage w (enc (delivered (rg 1))) s1 = (Some e, sf)"
    by (simp only: writeBlob_failed)
  then have "deferredCancel storage w (writeBlob d storage w (enc (delivered (rg 1))) s1) =
      (Some e, snd (Cancel storage w sf))"
    by (simp add: deferredCancel_def)
  with a show "createHashValidatedBlobFromReaderGenerator d rg storage s =
      (\<lparr>bid = hex_EncodeToString (sha512 d (enc (delivered (rg 1)))), key = k,
        err = Some e\<rparr>, snd (Cancel storage w sf))"
    by (simp add: pipeline_opened)
qed

theorem pipeline_failure_witness:
  "createHashValidatedBlobFromReaderGenerator (example_deps\<lparr>sha512 := \<lambda>m. []\<rparr>)
     example_readerGenerator (RecordingStorage (\<lambda>c. None)) [] =
     (\<lparr>bid = [], key = [], err = Some ErrInsufficientKeySource\<rparr>, []) \<and>
   createHashValidatedBlobFromReaderGenerator example_deps example_readerGenerator
     (RecordingStorage failing_open) [] =
     (\<lparr>bid = hex_EncodeToString (replicate 64 0x04),
       key = ''01'' @ hex_EncodeToString (replicate 32 0x62),
       err = Some (ErrOther ''no space'')\<rparr>,
      [CallNewBlobWriter (hex_EncodeToString (replicate 64 0x04))]) \<and>
   createHashValidatedBlobFromReaderGenerator example_deps example_readerGenerator
     (RecordingStorage (failing_write [0x01])) [] =
     (\<lparr>bid = hex_EncodeToString (replicate 64 0x04),
       key = ''01'' @ hex_EncodeToString (replicate 32 0x62),
       err = Some (ErrOther ''disk full'')\<rparr>,
      [CallNewBlobWriter (hex_EncodeToString (replicate 64 0x04)), CallWrite [0x01],
       CallCancel]) \<and>
   createHashValidatedBlobFromReaderGenerator example_deps example_readerGenerator
     (RecordingStorage (failing_write [0x03])) [] =
     (\<lparr>bid = hex_EncodeToString (replicate 64 0x04),
       key = ''01'' @ hex_EncodeToString (replicate 32 0x62),
       err = Some (ErrOther ''disk full'')\<rparr>,
      [CallNewBlobWriter (hex_EncodeToString (replicate 64 0x04)), CallWrite [0x01],
       CallWrite [0x03], CallCancel]) \<and>
   createHashValidatedBlobFromReaderGenerator example_deps example_readerGenerator
     (RecordingStorage failing_finalize) [] =
     (\<lparr>bid = hex_EncodeToString (replicate 64 0x04),
       key = ''01'' @ hex_EncodeToString (replicate 32 0x62),
       err = Some ErrBIDCollision\<rparr>,
      [CallNewBlobWriter (hex_EncodeToString (replicate 64 0x04)), CallWrite [0x01],
       CallWrite [0x03], CallFinalize, CallCancel])"
proof -
  let ?B = "hex_EncodeToString (replicate 64 (0x04 :: byte))"
  let ?K = "''01'' @ hex_EncodeToString (replicate 32 (0x62 :: byte))"
  let ?enc = "map (\<lambda>b :: byte. b XOR 0x62)"
  note defs = example_deps_def example_digest_def example_createEncryptor_def
    example_readerGenerator_def bytes_NewReader_def RecordingStorage_def io_Copy_Buffer_def
    failing_open_def failing_write_def failing_finalize_def
  have 1: "createHashValidatedBlobFromReaderGenerator (example_deps\<lparr>sha512 := \<lambda>m. []\<rparr>)
      example_readerGenerator (RecordingStorage (\<lambda>c. None)) [] =
      (\<lparr>bid = [], key = [], err = Some ErrInsufficientKeySource\<rparr>, [])"
    by (rule pipeline_failure_cancels_writer [THEN conjunct1, rule_format])
      (simp add: defs)
  have 2: "createHashValidatedBlobFromReaderGenerator example_deps example_readerGenerator
      (RecordingStorage failing_open) [] =
      (\<lparr>bid = hex_EncodeToString (sha512 example_deps (?enc (delivered (example_readerGenerator 1)))),
        key = ?K, err = Some (ErrOther ''no space'')\<rparr>,
       [CallNewBlobWriter ?B])"
    by (rule pipeline_failure_cancels_writer [THEN conjunct2, THEN conjunct1, rule_format])
      (simp add: defs)
  have 3: "createHashValidatedBlobFromReaderGenerator example_deps example_readerGenerator
      (RecordingStorage (failing_write [0x01])) [] =
      (\<lparr>bid = hex_EncodeToString (sha512 example_deps (?enc (delivered (example_readerGenerator 1)))),
        key = ?K, err = Some (ErrOther ''disk full'')\<rparr>,
       snd (Cancel (RecordingStorage (failing_write [0x01])) ()
         [CallNewBlobWriter ?B, CallWrite [0x01]]))"
    by (rule pipeline_failure_cancels_writer [THEN conjunct2, THEN conjunct2, rule_format,
          where ?s1.0 = "[CallNewBlobWriter ?B]"])
      (simp add: defs)
  have 4: "createHashValidatedBlobFromReaderGenerator example_deps example_readerGenerator
      (RecordingStorage (failing_write [0x03])) [] =
      (\<lparr>bid = hex_EncodeToString (sha512 example_deps (?enc (delivered (example_readerGenerator 1)))),
        key = ?K, err = Some (ErrOther ''disk full'')\<rparr>,
       snd (Cancel (RecordingStorage (failing_write [0x03])) ()
         [CallNewBlobWriter ?B, CallWrite [0x01], CallWrite [0x03]]))"
    by (rule pipeline_failure_cancels_writer [THEN conjunct2, THEN conjunct2, rule_format,
          where ?s1.0 = "[CallNewBlobWriter ?B]"])
      (simp add: defs)
  have 5: "createHashValidatedBlobFromReaderGenerator example_deps example_readerGenerator
      (RecordingStorage failing_finalize) [] =
      (\<lparr>bid = hex_EncodeToString (sha512 example_deps (?enc (delivered (example_readerGenerator 1)))),
        key = ?K, err = Some ErrBIDCollision\<rparr>,
       snd (Cancel (RecordingStorage failing_finalize) ()
         [CallNewBlobWriter ?B, CallWrite [0x01], CallWrite [0x03], CallFinalize]))"
    by (rule pipeline_failure_cancels_writer [THEN conjunct2, THEN conjunct2, rule_format,
          where ?s1.0 = "[CallNewBlobWriter ?B]"])
      (simp add: defs)
  from 1 2 3 4 5 show ?thesis
    by (simp add: defs)
qed

text \<open>
  Conversely, every run that returns an error is one of these: the error comes from
  \<open>createEncryptor\<close>, from \<open>NewBlobWriter\<close> or from a step on the opened writer,
  which is then cancelled.
\<close>

lemma pipeline_failure_classified:
  assumes "createHashValidatedBlobFromReaderGenerator d rg storage s = (r, s')"
    and "err r = Some e"
  shows "(\<exists>k. createEncryptor d (sha512 d (delivered (rg 0))) [] = (Inl e, k) \<and> s' = s) \<or>
         (\<exists>enc k. createEncryptor d (sha512 d (delivered (rg 0))) [] = (Inr enc, k) \<and>
            NewBlobWriter storage (bid r) s = (Inl e, s')) \<or>
         (\<exists>enc k w s1 sf.
            createEncryptor d (sha512 d (delivered (rg 0))) [] = (Inr enc, k) \<and>
            NewBlobWriter storage (bid r) s = (Inr w, s1) \<and>
            (Write storage w [validationMethodHash d] s1 = (Some e, sf) \<or>
             (\<exists>s2. Write storage w [validationMethodHash d] s1 = (None, s2) \<and>
                io_Copy_Buffer storage w (enc (delivered (rg 1))) s2 = (Some e, sf)) \<or>
             (\<exists>s2 s3. Write storage w [validationMethodHash d] s1 = (None, s2) \<and>
                io_Copy_Buffer storage w (enc (delivered (rg 1))) s2 = (None, s3) \<and>
                Finalize storage w s3 = (Some e, sf))) \<and>
            s' = snd (Cancel storage w sf))"
proof (cases d rg storage s rule: pipeline_cases)
  case (encryptor_error e' k)
  with assms(1) have "r = \<lparr>bid = [], key = k, err = Some e'\<rparr>" and "s' = s" by simp_all
  with assms(2) encryptor_error(1) show ?thesis by simp
next
  case (open_error enc k e' s1)
  with assms(1) have "r = \<lparr>bid = hex_EncodeToString (sha512 d (enc (delivered (rg 1)))),
      key = k, err = Some e'\<rparr>" and "s' = s1" by simp_all
  with assms(2) open_error(1,2) show ?thesis by simp
next
  case (opened enc k w s1 x sf)
  with assms(1) have r: "r = \<lparr>bid = hex_EncodeToString (sha512 d (enc (delivered (rg 1)))),
      key = k, err = x\<rparr>" and sf: "s' = sf" by simp_all
  with assms(2) have x: "x = Some e" by simp
  from opened(3) x sf obtain sw where
    wb: "writeBlob d storage w (enc (delivered (rg 1))) s1 = (Some e, sw)"
    and c: "s' = snd (Cancel storage w sw)"
    by (auto simp: deferredCancel_failed)
  from r have b: "bid r = hex_EncodeToString (sha512 d (enc (delivered (rg 1))))" by simp
  have "\<exists>enc k w s1 sf.
            createEncryptor d (sha512 d (delivered (rg 0))) [] = (Inr enc, k) \<and>
            NewBlobWriter storage (bid r) s = (Inr w, s1) \<and>
            (Write storage w [validationMethodHash d] s1 = (Some e, sf) \<or>
             (\<exists>s2. Write storage w [validationMethodHash d] s1 = (None, s2) \<and>
                io_Copy_Buffer storage w (enc (delivered (rg 1))) s2 = (Some e, sf)) \<or>
             (\<exists>s2 s3. Write storage w [validationMethodHash d] s1 = (None, s2) \<and>
                io_Copy_Buffer storage w (enc (delivered (rg 1))) s2 = (None, s3) \<and>
                Finalize storage w s3 = (Some e, sf))) \<and>
            s' = snd (Cancel storage w sf)"
    apply (rule exI [of _ enc], rule exI [of _ k], rule exI [of _ w], rule exI [of _ s1],
        rule exI [of _ sw])
    using wb [unfolded writeBlob_failed] opened(1,2) b c by simp
  then show ?thesis by simp
qed

text \<open>
  Claim C10. When the digest has 64 bytes, as SHA-512 has, the blob id of a
  successful run is the hex encoding of the 64-byte digest of the ciphertext, that is
  of what the encryptor made for the digest of the first reading turns the second
  reading into: 128 characters, each a digit or a lowercase letter from \<open>a\<close> to
  \<open>f\<close>.
\<close>

theorem pipeline_bid_is_128_hex_chars:
  assumes "\<forall>m. length (sha512 d m) = 64"
    and "createHashValidatedBlobFromReaderGenerator d rg storage s = (r, s')"
    and "err r = None"
  shows "\<exists>enc. createEncryptor d (sha512 d (delivered (rg 0))) [] = (Inr enc, key r) \<and>
           bid r = hex_EncodeToString (sha512 d (enc (delivered (rg 1)))) \<and>
           length (sha512 d (enc (delivered (rg 1)))) = 64 \<and>
           length (bid r) = 128 \<and> set (bid r) \<subseteq> set ''0123456789abcdef''"
proof (cases d rg storage s rule: pipeline_cases)
  case (encryptor_error e k)
  with assms(2) have "r = \<lparr>bid = [], key = k, err = Some e\<rparr>" by simp
  with assms(3) show ?thesis by simp
next
  case (open_error enc k e s1)
  with assms(2) have "err r = Some e" by auto
  with assms(3) show ?thesis by simp
next
  case (opened enc k w s1 x sf)
  with assms(2) have b: "bid r = hex_EncodeToString (sha512 d (enc (delivered (rg 1))))"
    and k: "key r = k" by auto
  from assms(1) have l: "length (sha512 d (enc (delivered (rg 1)))) = 64" by simp
  have "set (bid r) \<subseteq> set ''0123456789abcdef''"
    using hex_EncodeToString_chars [of "sha512 d (enc (delivered (rg 1)))"] b
    by (simp add: hextable_def)
  moreover from b l have "length (bid r) = 128"
    by (simp add: length_hex_EncodeToString)
  ultimately show ?thesis using opened(1) b k l by blast
qed

theorem pipeline_bid_witness:
  "(\<forall>m. length (sha512 example_deps m) = 64) \<and>
   createHashValidatedBlobFromReaderGenerator example_deps example_readerGenerator
     MemoryStorage NewMemoryBlobStorage =
   (\<lparr>bid = hex_EncodeToString (replicate 64 0x04),
     key = ''01'' @ hex_EncodeToString (replicate 32 0x62), err = None\<rparr>,
    \<lparr>blobs = [(hex_EncodeToString (replicate 64 0x04), [0x01, 0x03])], staging = [None]\<rparr>) \<and>
   (\<exists>enc. createEncryptor example_deps (sha512 example_deps (delivered (example_readerGenerator 0))) []
           = (Inr enc, ''01'' @ hex_EncodeToString (replicate 32 0x62)) \<and>
      hex_EncodeToString (replicate 64 0x04) =
        hex_EncodeToString (sha512 example_deps (enc (delivered (example_readerGenerator 1)))) \<and>
      length (sha512 example_deps (enc (delivered (example_readerGenerator 1)))) = 64 \<and>
      length (hex_EncodeToString (replicate 64 (0x04 :: byte))) = 128 \<and>
      set (hex_EncodeToString (replicate 64 (0x04 :: byte))) \<subseteq> set ''0123456789abcdef'')"
proof -
  have h: "\<forall>m. length (sha512 example_deps m) = 64"
    by (simp add: example_deps_def example_digest_def)
  show ?thesis
    using h pipeline_bid_is_128_hex_chars [OF h example_run] example_run by simp
qed

section \<open>Sorting directory entries by name\<close>

lemma mset_sink: "mset (sink lt x ys) = add_mset x (mset ys)"
  by (induction ys) simp_all

lemma set_sink: "set (sink lt x ys) = insert x (set ys)"
  by (induction ys) auto

lemma mset_insertionSort_from: "mset (insertionSort_from lt front xs) = mset front + mset xs"
  by (induction xs arbitrary: front) (simp_all add: mset_sink)

lemma sink_descending:
  "sorted_wrt (\<lambda>a b. Name b \<le> Name a) front \<Longrightarrow>
   sorted_wrt (\<lambda>a b. Name b \<le> Name a) (sink sortByName_Less x front)"
  by (induction front) (auto simp: sortByName_Less_def set_sink)

lemma insertionSort_from_ascending:
  "sorted_wrt (\<lambda>a b. Name b \<le> Name a) front \<Longrightarrow>
   sorted_wrt (\<lambda>a b. Name a \<le> Name b) (insertionSort_from sortByName_Less front xs)"
proof (induction xs arbitrary: front)
  case Nil
  then show ?case by (simp add: sorted_wrt_rev)
next
  case (Cons x xs)
  then show ?case by (simp add: sink_descending)
qed

lemma insertionSort_sorts_by_name: "sorts_by_name insertionSort"
  unfolding sorts_by_name_def
proof (intro allI conjI)
  fix es :: "'a DirEntry_scheme list"
  show "mset (insertionSort sortByName_Less es) = mset es"
    by (simp add: insertionSort_def mset_insertionSort_from)
  have "sorted_wrt (\<lambda>a b. Name a \<le> Name b) (insertionSort_from sortByName_Less [] es)"
    by (rule insertionSort_from_ascending) simp
  then show "sorted_wrt (\<lambda>a b. \<not> sortByName_Less b a) (insertionSort sortByName_Less es)"
    by (simp add: insertionSort_def sortByName_Less_def not_less)
qed

lemma filter_same_name:
  "distinct (map Name xs) \<Longrightarrow> k \<in> set xs \<Longrightarrow> filter (\<lambda>x. Name k = Name x) xs = [k]"
proof (induction xs)
  case Nil
  then show ?case by simp
next
  case (Cons a xs)
  show ?case
  proof (cases "k = a")
    case True
    with Cons.prems have "filter (\<lambda>x. Name k = Name x) xs = []"
      by (auto simp: filter_empty_conv)
    with True show ?thesis by simp
  next
    case False
    with Cons.prems have k: "k \<in> set xs" by simp
    from Cons.prems have "Name a \<notin> Name ` set xs" by simp
    with k have "Name k \<noteq> Name a" by (metis imageI)
    with k Cons show ?thesis by simp
  qed
qed

lemma sorted_by_name_unique:
  assumes "mset xs = mset ys" and "distinct (map Name ys)"
    and "sorted (map Name xs)" and "sorted (map Name ys)"
  shows "xs = ys"
proof -
  have dx: "distinct (map Name xs)"
    using assms(1,2) by (metis mset_map mset_eq_imp_distinct_iff)
  have sx: "set xs = set ys" using assms(1) by (rule mset_eq_setD)
  have "sort_key Name ys = xs"
    using assms(1) _ assms(3)
  proof (rule properties_for_sort_key)
    fix k assume "k \<in> set xs"
    with sx dx assms(2) show "filter (\<lambda>x. Name k = Name x) xs = filter (\<lambda>x. Name k = Name x) ys"
      by (simp add: filter_same_name)
  qed
  moreover have "sort_key Name ys = ys"
    using assms(4) by (simp add: sort_key_id_if_sorted)
  ultimately show ?thesis by simp
qed

lemma entries_addEntries: "entries (addEntries d es) = entries d @ es"
  by (induction es arbitrary: d) (simp_all add: addEntries_def AddEntry_def)

lemma Storage_addEntries: "Storage (addEntries d es) = Storage d"
  by (induction es arbitrary: d) (simp_all add: addEntries_def AddEntry_def)



lemma addEntries_eq: "addEntries d es = d\<lparr>entries := entries d @ es\<rparr>"
  by (induction es arbitrary: d) (simp_all add: addEntries_def AddEntry_def)

lemma sorted_entries_unique:
  fixes srt :: "('a DirEntry_scheme \<Rightarrow> 'a DirEntry_scheme \<Rightarrow> bool) \<Rightarrow>
      'a DirEntry_scheme list \<Rightarrow> 'a DirEntry_scheme list"
  assumes "sorts_by_name srt" and "distinct (map Name es)" and "mset es' = mset es"
  shows "srt sortByName_Less es' = srt sortByName_Less es"
    and "sorted_wrt (\<lambda>a b. Name a < Name b) (srt sortByName_Less es)"
    and "mset (srt sortByName_Less es) = mset es"
proof -
  let ?xs = "srt sortByName_Less es" and ?ys = "srt sortByName_Less es'"
  from assms(1) have m: "mset ?xs = mset es" "mset ?ys = mset es'"
    and s: "sorted (map Name ?xs)" "sorted (map Name ?ys)"
    by (simp_all add: sorts_by_name_def sortByName_Less_def not_less sorted_map)
  from m(1) assms(2) have d: "distinct (map Name ?xs)"
    by (metis mset_map mset_eq_imp_distinct_iff)
  from m assms(3) d s show "?ys = ?xs"
    by (intro sorted_by_name_unique) simp_all
  from s(1) d have "sorted_wrt (<) (map Name ?xs)"
    by (simp add: strict_sorted_iff)
  then show "sorted_wrt (\<lambda>a b. Name a < Name b) ?xs"
    by (simp add: sorted_wrt_map)
  from m(1) show "mset ?xs = mset es" .
qed

section \<open>Concrete directories\<close>

lemmas example_dir_defs =
  finalizeSimple_buffer_def finalizeSimple_sorted_def example_dir_deps_def example_writer_def
  example_entry_def example_serialize_def insertionSort_def sortByName_Less_def
  entries_addEntries Let_def

lemma example_names: "''a'' < ''b''" "\<not> ''b'' < ''a''" "\<not> ''a'' < ''a''"
  by (simp_all add: less_char_def)

section \<open>Claims about the directory blob writer\<close>

text \<open>
  For entries with pairwise distinct names that number at most
  \<open>maxSimpleDirEntries\<close>, and any \<open>sort.Sort\<close> that meets its contract,
  \<open>Finalize\<close> returns what the pipeline returns for the buffer made of the type
  byte, the entry count and the entries in strictly ascending order of their names,
  and leaves the storage as that run of the pipeline does; adding the same entries in
  any other order gives the same results, the same sorted entry list in the writer
  and the same storage state.
\<close>

lemma dir_finalize_distinct_names:
  fixes d0 :: "('s, 'w, 'a) DirBlobWriter" and dd :: "'a dir_deps"
  assumes "sorts_by_name (sort_Sort dd)"
    and "entries d0 = []"
    and "distinct (map Name es)"
    and "mset es' = mset es"
    and "int (length es) \<le> maxSimpleDirEntries dd"
  shows "\<exists>sorted r s'.
      mset sorted = mset es \<and> sorted_wrt (\<lambda>a b. Name a < Name b) sorted \<and>
      createHashValidatedBlobFromReaderGenerator d
        (\<lambda>n. bytes_NewReader
           ([blobTypeSimpleStaticDir dd] @ serializeInt dd (int (length es)) @
            concat (map (serialize dd) sorted)))
        (Storage d0) s = (r, s') \<and>
      DirBlobWriter_Finalize d dd (addEntries d0 es) s = Returns (r, d0\<lparr>entries := sorted\<rparr>, s') \<and>
      DirBlobWriter_Finalize d dd (addEntries d0 es') s = Returns (r, d0\<lparr>entries := sorted\<rparr>, s')"
proof -
  let ?sorted = "sort_Sort dd sortByName_Less es"
  note u = sorted_entries_unique [OF assms(1,3,4)]
  have len: "length es' = length es" "length ?sorted = length es"
    using assms(4) u(3) by (metis size_mset)+
  have b: "finalizeSimple_buffer dd es' = finalizeSimple_buffer dd es"
    by (simp add: finalizeSimple_buffer_def finalizeSimple_sorted_def u(1))
  have layout: "finalizeSimple_buffer dd es =
      [blobTypeSimpleStaticDir dd] @ serializeInt dd (int (length es)) @
      concat (map (serialize dd) ?sorted)"
    using len by (simp add: finalizeSimple_buffer_def finalizeSimple_sorted_def)
  obtain r s' where run:
    "createHashValidatedBlobFromReaderGenerator d
       (\<lambda>n. bytes_NewReader (finalizeSimple_buffer dd es)) (Storage d0) s = (r, s')"
    by force
  have "DirBlobWriter_Finalize d dd (addEntries d0 es) s = Returns (r, d0\<lparr>entries := ?sorted\<rparr>, s')"
    using assms(2,5) run
    by (simp add: DirBlobWriter_Finalize_def finalizeSimple_def addEntries_eq
        finalizeSimple_sorted_def)
  moreover have
    "DirBlobWriter_Finalize d dd (addEntries d0 es') s = Returns (r, d0\<lparr>entries := ?sorted\<rparr>, s')"
    using assms(2,5) run len b
    by (simp add: DirBlobWriter_Finalize_def finalizeSimple_def addEntries_eq
        finalizeSimple_sorted_def u(1))
  moreover from run have "createHashValidatedBlobFromReaderGenerator d
        (\<lambda>n. bytes_NewReader
           ([blobTypeSimpleStaticDir dd] @ serializeInt dd (int (length es)) @
            concat (map (serialize dd) ?sorted)))
        (Storage d0) s = (r, s')"
    by (simp only: layout)
  ultimately show ?thesis using u(2,3) by blast
qed

text \<open>
  Claim C6 says that the serialized directory, and so the capability, is the same for
  every order in which the entries of a set were added. \<open>AddEntry\<close> accepts two
  entries with the same name, although the comment above it says it should not;
  \<open>Less\<close> does not order them, the insertion sort that \<open>sort.Sort\<close> runs on a
  short slice leaves them in the order they were added, and at this input
  \<open>Finalize\<close> stores two different blobs under two different blob ids and returns
  two different keys for the two orders of adding the same two entries.
\<close>

theorem dir_finalize_duplicate_names:
  "mset [example_entry ''a'' [2], example_entry ''a'' [1]] =
     mset [example_entry ''a'' [1], example_entry ''a'' [2]] \<and>
   int (length [example_entry ''a'' [1], example_entry ''a'' [2]]) \<le>
     maxSimpleDirEntries example_dir_deps \<and>
   DirBlobWriter_Finalize example_ordered_deps example_dir_deps
     (addEntries example_writer [example_entry ''a'' [1], example_entry ''a'' [2]])
     NewMemoryBlobStorage =
   Returns
     (\<lparr>bid = hex_EncodeToString (replicate 64 0x03),
       key = ''01'' @ hex_EncodeToString (replicate 32 0x61), err = None\<rparr>,
      example_writer\<lparr>entries := [example_entry ''a'' [1], example_entry ''a'' [2]]\<rparr>,
      \<lparr>blobs = [(hex_EncodeToString (replicate 64 0x03), [1, 99, 99, 0, 97, 96, 0, 97, 99])],
       staging = [None]\<rparr>) \<and>
   DirBlobWriter_Finalize example_ordered_deps example_dir_deps
     (addEntries example_writer [example_entry ''a'' [2], example_entry ''a'' [1]])
     NewMemoryBlobStorage =
   Returns
     (\<lparr>bid = hex_EncodeToString (replicate 64 0x75),
       key = ''01'' @ hex_EncodeToString (replicate 32 0x7b), err = None\<rparr>,
      example_writer\<lparr>entries := [example_entry ''a'' [2], example_entry ''a'' [1]]\<rparr>,
      \<lparr>blobs =
         [(hex_EncodeToString (replicate 64 0x75), [1, 121, 121, 26, 123, 121, 26, 123, 122])],
       staging = [None]\<rparr>) \<and>
   hex_EncodeToString (replicate 64 (0x03 :: byte)) \<noteq> hex_EncodeToString (replicate 64 0x75)"
proof -
  let ?a1 = "example_entry ''a'' [1]" and ?a2 = "example_entry ''a'' [2]"
  have sorted:
    "finalizeSimple_sorted example_dir_deps [?a1, ?a2] = [?a1, ?a2]"
    "finalizeSimple_sorted example_dir_deps [?a2, ?a1] = [?a2, ?a1]"
    by (simp_all add: example_dir_defs example_names)
  have buffer:
    "finalizeSimple_buffer example_dir_deps [?a1, ?a2] = [2, 2, 97, 0, 1, 97, 0, 2]"
    "finalizeSimple_buffer example_dir_deps [?a2, ?a1] = [2, 2, 97, 0, 2, 97, 0, 1]"
    by (simp_all add: example_dir_defs example_names)
  have run:
    "createHashValidatedBlobFromReaderGenerator example_ordered_deps
       (\<lambda>n. bytes_NewReader [2, 2, 97, 0, 1, 97, 0, 2]) MemoryStorage NewMemoryBlobStorage =
     (\<lparr>bid = hex_EncodeToString (replicate 64 0x03),
       key = ''01'' @ hex_EncodeToString (replicate 32 0x61), err = None\<rparr>,
      \<lparr>blobs = [(hex_EncodeToString (replicate 64 0x03), [1, 99, 99, 0, 97, 96, 0, 97, 99])],
       staging = [None]\<rparr>)"
    "createHashValidatedBlobFromReaderGenerator example_ordered_deps
       (\<lambda>n. bytes_NewReader [2, 2, 97, 0, 2, 97, 0, 1]) MemoryStorage NewMemoryBlobStorage =
     (\<lparr>bid = hex_EncodeToString (replicate 64 0x75),
       key = ''01'' @ hex_EncodeToString (replicate 32 0x7b), err = None\<rparr>,
      \<lparr>blobs =
         [(hex_EncodeToString (replicate 64 0x75), [1, 121, 121, 26, 123, 121, 26, 123, 122])],
       staging = [None]\<rparr>)"
    by (simp_all add: example_defs example_ordered_deps_def example_ordered_digest_def
        hex_EncodeToString_inject)
  have "hex_EncodeToString (replicate 64 (0x03 :: byte)) \<noteq> hex_EncodeToString (replicate 64 0x75)"
    by (simp add: hex_EncodeToString_inject)
  with sorted buffer run show ?thesis
    by (simp add: DirBlobWriter_Finalize_def finalizeSimple_def addEntries_eq
        example_writer_def example_dir_deps_def)
qed

text \<open>
  Claim C2 says that \<open>Finalize\<close> splits a directory of more than
  \<open>maxSimpleDirEntries\<close> entries and never panics. In the source \<open>finalizeSplit\<close>
  is the single statement \<open>panic("Unimplemented: split dir blob")\<close>: every such
  directory makes \<open>Finalize\<close> panic.
\<close>

theorem dir_finalize_split_panics:
  "maxSimpleDirEntries dd < int (length (entries w)) \<Longrightarrow>
   DirBlobWriter_Finalize d dd w s = Panics ''Unimplemented: split dir blob''"
  by (simp add: DirBlobWriter_Finalize_def finalizeSplit_def)

theorem dir_finalize_split_witness:
  "maxSimpleDirEntries example_dir_deps <
     int (length (entries (addEntries example_writer
       [example_entry ''a'' [1], example_entry ''b'' [2], example_entry ''c'' [3]]))) \<and>
   DirBlobWriter_Finalize example_deps example_dir_deps
     (addEntries example_writer
       [example_entry ''a'' [1], example_entry ''b'' [2], example_entry ''c'' [3]])
     NewMemoryBlobStorage = Panics ''Unimplemented: split dir blob''"
proof -
  have h: "maxSimpleDirEntries example_dir_deps <
     int (length (entries (addEntries example_writer
       [example_entry ''a'' [1], example_entry ''b'' [2], example_entry ''c'' [3]])))"
    by (simp add: example_dir_deps_def example_writer_def entries_addEntries)
  from h dir_finalize_split_panics [OF h] show ?thesis by simp
qed

section \<open>The stream cipher\<close>

lemma xor_enumerate_twice:
  "map (\<lambda>(i, b). b XOR ks i) (enumerate n (map (\<lambda>(i, b). b XOR ks i) (enumerate n p))) =
   (p :: byte list)"
  by (induction p arbitrary: n) (simp_all add: xor.assoc)

lemma xorKeyStream_twice: "xorKeyStream ks (xorKeyStream ks p) = p"
  by (simp add: xorKeyStream_def xor_enumerate_twice)

lemma length_xorKeyStream: "length (xorKeyStream ks p) = length p"
  by (simp add: xorKeyStream_def)

section \<open>Claims about the cipher factory\<close>

text \<open>
  Claim C7. \<open>CreateEncryptor\<close> fails exactly when the key source is shorter than
  \<open>MinKeySourceBytes\<close>, and then with \<open>ErrInsufficientKeySource\<close> and an empty key;
  the iv plays no part in it, so a key source of exactly \<open>MinKeySourceBytes\<close> bytes
  succeeds with an iv of any length, the empty one included.
\<close>

theorem CreateEncryptor_fails_iff_short_key_source:
  "(fst (CreateEncryptor c keySource iv) = Inl ErrInsufficientKeySource) =
     (length keySource < MinKeySourceBytes c) \<and>
   (\<exists>enc. fst (CreateEncryptor c keySource iv) = Inr enc) =
     (MinKeySourceBytes c \<le> length keySource) \<and>
   (\<exists>enc. fst (CreateEncryptor c (replicate (MinKeySourceBytes c) b) iv) = Inr enc)"
  by (auto simp: CreateEncryptor_def Let_def)

theorem CreateEncryptor_key_source_witness:
  "fst (CreateEncryptor example_cipher [] []) = Inl ErrInsufficientKeySource \<and>
   fst (CreateEncryptor example_cipher (replicate 15 0) []) = Inl ErrInsufficientKeySource \<and>
   (\<exists>enc. fst (CreateEncryptor example_cipher (replicate 16 0) []) = Inr enc) \<and>
   (\<exists>enc. fst (CreateEncryptor example_cipher (replicate 16 0) (replicate 28 0)) = Inr enc)"
  using CreateEncryptor_fails_iff_short_key_source [of example_cipher "[]" "[]"]
    CreateEncryptor_fails_iff_short_key_source [of example_cipher "replicate 15 0" "[]"]
    CreateEncryptor_fails_iff_short_key_source [of example_cipher "replicate 16 0" "[]"]
    CreateEncryptor_fails_iff_short_key_source [of example_cipher "replicate 16 0" "replicate 28 0"]
  by (simp add: example_cipher_def)

text \<open>
  Claim C8. For a key source that is long enough and a key derivation that yields
  keys of the cipher's size, the decryptor made from the key string the encryptor
  returned and the same iv gives back every plaintext \<open>P\<close>, of any length, from its
  ciphertext, which is as long as \<open>P\<close>.
\<close>

theorem decrypt_encrypt_roundtrip:
  assumes "MinKeySourceBytes c \<le> length keySource"
    and "length (deriveKey c keySource) = keyBytes c"
  shows "\<exists>enc keyString dec.
           CreateEncryptor c keySource iv = (Inr enc, keyString) \<and>
           CreateDecryptor c keyString iv = Inr dec \<and>
           dec (enc P) = P \<and> length (enc P) = length P"
  using assms
  by (simp add: CreateEncryptor_def CreateDecryptor_def Let_def hex_roundtrip
      xorKeyStream_twice length_xorKeyStream)

theorem decrypt_encrypt_roundtrip_witness:
  "MinKeySourceBytes example_cipher \<le> length (replicate 16 (0 :: byte)) \<and>
   length (deriveKey example_cipher (replicate 16 0)) = keyBytes example_cipher \<and>
   (\<exists>enc keyString dec.
      CreateEncryptor example_cipher (replicate 16 0) [] = (Inr enc, keyString) \<and>
      CreateDecryptor example_cipher keyString [] = Inr dec \<and>
      dec (enc [47]) = [47] \<and> length (enc [47]) = length [47 :: byte])"
proof -
  have 1: "MinKeySourceBytes example_cipher \<le> length (replicate 16 (0 :: byte))"
    by (simp add: example_cipher_def)
  have 2: "length (deriveKey example_cipher (replicate 16 0)) = keyBytes example_cipher"
    by (simp add: example_cipher_def)
  from 1 2 decrypt_encrypt_roundtrip [OF 1 2, of "[]" "[47]"] show ?thesis by blast
qed

section \<open>Blocks of a stream\<close>




lemma concat_splitBlocks: "0 < n \<Longrightarrow> concat (splitBlocks n content) = content"
proof (induction n content rule: splitBlocks.induct)
  case (1 n content)
  then show ?case
    by (subst splitBlocks.simps) auto
qed



section \<open>Blobs committed by the file writer\<close>





section \<open>Concrete files\<close>



lemma varint_examples:
  "varint (Suc BlockSize) = [0x81, 0x80, 0x80, 0x08]"
  "varint (Suc (Suc 0)) = [0x02]" "varint 66 = [0x42]" "varint 128 = [0x80, 0x01]"
  by (simp_all add: BlockSize_def varint.simps)


lemma length_varint: "length (varint n) \<le> Suc n"
proof (induction n rule: varint.induct)
  case (1 n)
  show ?case
  proof (cases "n < 128")
    case True
    then show ?thesis by (subst varint.simps) simp
  next
    case False
    with 1 have "length (varint (n div 128)) \<le> Suc (n div 128)" by simp
    moreover from False have "Suc (n div 128) < n" by simp
    ultimately show ?thesis using False by (subst varint.simps) simp
  qed
qed

lemma length_serializeString: "length (serializeString str) \<le> 2 * length str + 1"
  using length_varint [of "length str"] by (simp add: serializeString_def)

text \<open>
  The index record of two blocks fits a block when blob ids and keys have at most
  1024 characters (with SHA-512 a blob id has 128, and the keys the test expects
  have 66).
\<close>

lemma two_block_index_fits:
  assumes "length b1 \<le> 1024" and "length k1 \<le> 1024"
    and "length b2 \<le> 1024" and "length k2 \<le> 1024"
  shows "length (fileIndex (BlockSize + 1) [(b1, k1), (b2, k2)]) \<le> BlockSize"
proof -
  have "length (fileIndex (BlockSize + 1) [(b1, k1), (b2, k2)]) =
      6 + (length (serializeString b1) + length (serializeString k1) +
           length (serializeString b2) + length (serializeString k2))"
    by (simp add: fileIndex_def varint_examples)
  also have "\<dots> \<le> 6 + 4 * (2 * 1024 + 1)"
    using assms length_serializeString [of b1] length_serializeString [of k1]
      length_serializeString [of b2] length_serializeString [of k2]
    by simp
  also have "\<dots> \<le> BlockSize" by (simp add: BlockSize_def)
  finally show ?thesis .
qed










section \<open>Claim about the chunked file writer\<close>



end
